theory Spec2Isabelle
  imports Main "HOL-Library.Word"
begin

unbundle bit_operations_syntax

section \<open>Numbers and buffers of the runtime\<close>

text \<open>
  A TypeScript \<open>number\<close> that holds an integer is an \<open>int\<close>; fractional values and
  \<open>NaN\<close> are outside this development. The bitwise operators first convert their
  operands to 32-bit two's complement, which is written out here with \<open>32 word\<close>.
\<close>

type_synonym byte = "8 word"

type_synonym Buffer = "byte list"

text \<open>\<open>x >> n\<close>: sign-propagating shift of the 32-bit value of \<open>x\<close> by \<open>n\<close> modulo 32.\<close>

definition js_shr :: "int \<Rightarrow> int \<Rightarrow> int" where
  "js_shr x n = sint (signed_drop_bit (nat (n mod 32)) (word_of_int x :: 32 word))"

text \<open>\<open>x & y\<close> on the 32-bit values of both operands.\<close>

definition js_and :: "int \<Rightarrow> int \<Rightarrow> int" where
  "js_and x y = sint ((word_of_int x :: 32 word) AND word_of_int y)"

text \<open>\<open>x % y\<close>: the remainder takes the sign of the dividend.\<close>

definition js_rem :: "int \<Rightarrow> int \<Rightarrow> int" where
  "js_rem x y = sgn x * (\<bar>x\<bar> mod \<bar>y\<bar>)"

text \<open>\<open>control.createBuffer(n)\<close>: \<open>n\<close> zero bytes.\<close>

definition createBuffer :: "nat \<Rightarrow> Buffer" where
  "createBuffer n = replicate n 0"

text \<open>
  \<open>buf[off]\<close> as a read: the byte at \<open>off\<close>; an index outside the buffer reads as 0
  (in the simulator it reads as \<open>undefined\<close>, which the bitwise operators turn into 0).
\<close>

definition getByte :: "Buffer \<Rightarrow> int \<Rightarrow> byte" where
  "getByte buf off = (if 0 \<le> off \<and> off < int (length buf) then buf ! nat off else 0)"

text \<open>
  \<open>buf[off] = v\<close>: the value is stored as an unsigned 8-bit quantity; a store outside
  the buffer is dropped.
\<close>

definition setByte :: "Buffer \<Rightarrow> int \<Rightarrow> int \<Rightarrow> Buffer" where
  "setByte buf off v =
     (if 0 \<le> off \<and> off < int (length buf) then buf[nat off := word_of_int v] else buf)"

text \<open>\<open>values[0]\<close> on an array: \<open>undefined\<close> (here \<open>None\<close>) when the array has no element 0.\<close>

definition array_get0 :: "'a list \<Rightarrow> 'a option" where
  "array_get0 vs = (case vs of [] \<Rightarrow> None | v # _ \<Rightarrow> Some v)"

section \<open>Packets, registers and the client state\<close>

text \<open>The opcodes of \<open>jacdac.GPIOCmd\<close> that the client uses.\<close>

datatype GPIOCmd = Configure | PinInfo | PinByLabel | PinByHwPin

text \<open>
  Modelled from the spec: \<open>JDPacket\<close> is declared outside \<open>gpio/client.ts\<close>. A command
  frame is an opcode with its payload bytes, and \<open>JDPacket.from(cmd, buf)\<close> is the frame
  of opcode \<open>cmd\<close> with payload \<open>buf\<close>.
\<close>

record JDPacket =
  service_command :: GPIOCmd
  pkt_data :: Buffer

definition JDPacket_from :: "GPIOCmd \<Rightarrow> Buffer \<Rightarrow> JDPacket" where
  "JDPacket_from cmd buf = \<lparr>service_command = cmd, pkt_data = buf\<rparr>"

text \<open>
  The numeric codes of \<open>jacdac.GPIOMode\<close> are declared outside \<open>gpio/client.ts\<close>;
  the two that the client names are taken as a parameter.
\<close>

record GPIOMode =
  OutputHigh :: int
  OutputLow :: int

text \<open>
  A call either returns a value or stays suspended in a wait that has no timeout
  and for which the device never delivers a value.
\<close>

datatype 'a outcome = Returns 'a | Blocked

text \<open>
  Modelled from the spec: \<open>RegisterClient\<close> is declared outside \<open>gpio/client.ts\<close>. It
  holds the cached value of the register (its single field), absent until the device
  has reported it, and, for counting round trips, the number of blocking waits the
  client has issued for it.
\<close>

record 'v RegisterClient =
  reg_value :: "'v option"
  reg_waits :: nat

text \<open>
  Modelled from the spec: \<open>RegisterClient.pauseUntilValues\<close> is declared outside
  \<open>gpio/client.ts\<close>. The store offers a blocking read with a timeout that gives an
  optional value; a register that has a value answers from the cache at once, and
  only a register without one waits. \<open>arrival\<close> is what the device reports during that
  wait, if anything. A wait with a timeout that sees no report ends with the empty
  tuple of values; a wait without a timeout that sees no report never ends.
\<close>

definition pauseUntilValues ::
  "'v RegisterClient \<Rightarrow> nat option \<Rightarrow> 'v option \<Rightarrow> 'v list outcome \<times> 'v RegisterClient" where
  "pauseUntilValues r timeOut arrival =
     (case reg_value r of
        Some v \<Rightarrow> (Returns [v], r)
      | None \<Rightarrow>
          (let r' = r\<lparr>reg_waits := reg_waits r + 1\<rparr> in
           case arrival of
             Some v \<Rightarrow> (Returns [v], r'\<lparr>reg_value := Some v\<rparr>)
           | None \<Rightarrow>
               (case timeOut of
                  Some t \<Rightarrow> (Returns [], r')
                | None \<Rightarrow> (Blocked, r'))))"

text \<open>
  The client: whether the connection is started, whether the state register streams,
  the timeout of state reads (a field of the sensor base class, bounded as the spec
  says), the two registers, and the command frames handed to the transport so far,
  oldest first.
\<close>

record GPIOClient =
  started :: bool
  streaming :: bool
  readingTimeout :: nat
  reading_reg :: "Buffer RegisterClient"
  numPins_reg :: "int RegisterClient"
  sent :: "JDPacket list"

text \<open>
  The constructor: nothing started, both registers without a value, nothing sent. The
  role name plays no part in what follows; the timeout of state reads is a parameter.
\<close>

definition new_GPIOClient :: "nat \<Rightarrow> GPIOClient" where
  "new_GPIOClient timeOut =
     \<lparr>started = False, streaming = False, readingTimeout = timeOut,
      reading_reg = \<lparr>reg_value = None, reg_waits = 0\<rparr>,
      numPins_reg = \<lparr>reg_value = None, reg_waits = 0\<rparr>,
      sent = []\<rparr>"

text \<open>Modelled from the spec: \<open>Client.start\<close>, which starts the connection if it is not started.\<close>

definition start :: "GPIOClient \<Rightarrow> GPIOClient" where
  "start c = c\<lparr>started := True\<rparr>"

text \<open>
  Modelled from the spec: \<open>SensorClient.setStreaming\<close>, the streaming switch of the
  register store; switching on a register that already streams changes nothing.
\<close>

definition setStreaming :: "GPIOClient \<Rightarrow> bool \<Rightarrow> GPIOClient" where
  "setStreaming c on = c\<lparr>streaming := on\<rparr>"

text \<open>
  Modelled from the spec: \<open>Client.sendCommand\<close>, the fire-and-forget command channel;
  frames are handed to the transport in call order.
\<close>

definition sendCommand :: "GPIOClient \<Rightarrow> JDPacket \<Rightarrow> GPIOClient" where
  "sendCommand c pkt = c\<lparr>sent := sent c @ [pkt]\<rparr>"

section \<open>The operations of \<open>GPIOClient\<close>\<close>

definition state :: "GPIOClient \<Rightarrow> Buffer option \<Rightarrow> Buffer option outcome \<times> GPIOClient" where
  "state c arrival =
     (let c1 = setStreaming c True;
          (values, r) = pauseUntilValues (reading_reg c1) (Some (readingTimeout c1)) arrival;
          c2 = c1\<lparr>reading_reg := r\<rparr>
      in case values of
           Blocked \<Rightarrow> (Blocked, c2)
         | Returns vs \<Rightarrow> (Returns (array_get0 vs), c2))"

definition digitalRead :: "GPIOClient \<Rightarrow> Buffer option \<Rightarrow> int \<Rightarrow> bool outcome \<times> GPIOClient" where
  "digitalRead c arrival pin =
     (case state c arrival of
        (Blocked, c') \<Rightarrow> (Blocked, c')
      | (Returns None, c') \<Rightarrow> (Returns False, c')
      | (Returns (Some buf), c') \<Rightarrow>
          (if pin < 0 then (Returns False, c')
           else
             let byteIndex = js_shr pin 3 in
             if byteIndex \<ge> int (length buf) then (Returns False, c')
             else
               let bitIndex = js_rem pin 8 in
               (Returns (js_and (js_shr (uint (getByte buf byteIndex)) bitIndex) 1 = 1), c')))"

definition numPins :: "GPIOClient \<Rightarrow> int option \<Rightarrow> int option outcome \<times> GPIOClient" where
  "numPins c arrival =
     (let c1 = start c;
          (values, r) = pauseUntilValues (numPins_reg c1) None arrival;
          c2 = c1\<lparr>numPins_reg := r\<rparr>
      in case values of
           Blocked \<Rightarrow> (Blocked, c2)
         | Returns vs \<Rightarrow> (Returns (array_get0 vs), c2))"

definition configure :: "GPIOClient \<Rightarrow> int option \<Rightarrow> int \<Rightarrow> int \<Rightarrow> unit outcome \<times> GPIOClient" where
  "configure c arrival pin mode =
     (let c1 = start c;
          (values, r) = pauseUntilValues (numPins_reg c1) None arrival;
          c2 = c1\<lparr>numPins_reg := r\<rparr>
      in case values of
           Blocked \<Rightarrow> (Blocked, c2)
         | Returns vs \<Rightarrow>
             (let buf = createBuffer 2;
                  buf = setByte buf 0 pin;
                  buf = setByte buf 1 mode
              in (Returns (), sendCommand c2 (JDPacket_from Configure buf))))"

definition digitalWrite ::
  "GPIOMode \<Rightarrow> GPIOClient \<Rightarrow> int option \<Rightarrow> int \<Rightarrow> bool \<Rightarrow> unit outcome \<times> GPIOClient" where
  "digitalWrite M c arrival pin high =
     configure c arrival pin (if high then OutputHigh M else OutputLow M)"

definition requestPinInfo :: "GPIOClient \<Rightarrow> int option \<Rightarrow> int \<Rightarrow> unit outcome \<times> GPIOClient" where
  "requestPinInfo c arrival pin =
     (let c1 = start c;
          (values, r) = pauseUntilValues (numPins_reg c1) None arrival;
          c2 = c1\<lparr>numPins_reg := r\<rparr>
      in case values of
           Blocked \<Rightarrow> (Blocked, c2)
         | Returns vs \<Rightarrow>
             (let buf = createBuffer 1;
                  buf = setByte buf 0 pin
              in (Returns (), sendCommand c2 (JDPacket_from PinInfo buf))))"

definition requestPinByHwPin :: "GPIOClient \<Rightarrow> int option \<Rightarrow> int \<Rightarrow> unit outcome \<times> GPIOClient" where
  "requestPinByHwPin c arrival hwPin =
     (let c1 = start c;
          (values, r) = pauseUntilValues (numPins_reg c1) None arrival;
          c2 = c1\<lparr>numPins_reg := r\<rparr>
      in case values of
           Blocked \<Rightarrow> (Blocked, c2)
         | Returns vs \<Rightarrow>
             (let buf = createBuffer 1;
                  buf = setByte buf 0 hwPin
              in (Returns (), sendCommand c2 (JDPacket_from PinByHwPin buf))))"

text \<open>
  Modelled from the spec: \<open>jdpack\<close> with the format \<open>GPIOCmdPack.PinByLabel\<close> is declared
  outside \<open>gpio/client.ts\<close>. The payload is the packed \<open>[label: string]\<close>, a
  variable-length string argument: the bytes of the string, up to the end of the
  payload. A \<open>string\<close> is the byte sequence of the label.
\<close>

definition jdpack :: "string list \<Rightarrow> Buffer" where
  "jdpack data = concat (map (map (\<lambda>ch. word_of_nat (of_char ch))) data)"

text \<open>
  Modelled from the spec: \<open>jdunpack\<close> with the same format, the decoding of such a
  payload: one string, made of all the bytes of the payload.
\<close>

definition jdunpack :: "Buffer \<Rightarrow> string list" where
  "jdunpack buf = [map (\<lambda>w. char_of (unat w)) buf]"

text \<open>
  Modelled from the spec: \<open>JDPacket.jdpacked(cmd, fmt, data)\<close>, the frame of opcode
  \<open>cmd\<close> whose payload packs \<open>data\<close>.
\<close>

definition JDPacket_jdpacked :: "GPIOCmd \<Rightarrow> string list \<Rightarrow> JDPacket" where
  "JDPacket_jdpacked cmd data = JDPacket_from cmd (jdpack data)"

definition requestPinByLabel ::
  "GPIOClient \<Rightarrow> int option \<Rightarrow> string \<Rightarrow> unit outcome \<times> GPIOClient" where
  "requestPinByLabel c arrival label =
     (let c1 = start c;
          (values, r) = pauseUntilValues (numPins_reg c1) None arrival;
          c2 = c1\<lparr>numPins_reg := r\<rparr>
      in case values of
           Blocked \<Rightarrow> (Blocked, c2)
         | Returns vs \<Rightarrow> (Returns (), sendCommand c2 (JDPacket_jdpacked PinByLabel [label])))"

section \<open>Callers and the connectivity gate\<close>

text \<open>
  The value of the \<open>NumPins\<close> register at the end of the wait that every command
  starts with: the cached value, or else what the device reports during the wait.
\<close>

definition numPins_known :: "GPIOClient \<Rightarrow> int option \<Rightarrow> int option" where
  "numPins_known c arrival =
     (case reg_value (numPins_reg c) of Some v \<Rightarrow> Some v | None \<Rightarrow> arrival)"

text \<open>
  A caller that calls \<open>numPins()\<close> again and again, one device report (or none) per
  call; a call that never returns ends the sequence.
\<close>

fun numPins_calls :: "GPIOClient \<Rightarrow> int option list \<Rightarrow> GPIOClient" where
  "numPins_calls c [] = c"
| "numPins_calls c (a # as) =
     (case numPins c a of
        (Blocked, c') \<Rightarrow> c'
      | (Returns v, c') \<Rightarrow> numPins_calls c' as)"

section \<open>Facts about the operators\<close>

lemma js_shr_eq: "js_shr x n = drop_bit (nat (n mod 32)) (signed_take_bit 31 x)"
  by (simp add: js_shr_def sint_signed_drop_bit_eq sint_sbintrunc')

lemma js_shr3_small: "0 \<le> x \<Longrightarrow> x < 2 ^ 31 \<Longrightarrow> js_shr x 3 = x div 8"
  apply (simp add: js_shr_eq drop_bit_eq_div)
  apply (subst signed_take_bit_int_eq_self)
  apply simp_all
  done

lemma js_rem_nonneg: "0 \<le> x \<Longrightarrow> js_rem x 8 = x mod 8"
  by (cases "x = 0") (simp_all add: js_rem_def)

lemma uint_byte_bound: "uint (w::byte) < 256"
  using uint_bounded [of w] by simp

lemma js_shr_byte:
  assumes "0 \<le> n" "n < 8"
  shows "js_shr (uint (w::byte)) n = drop_bit (nat n) (uint w)"
proof -
  have "signed_take_bit 31 (uint w) = uint w"
  proof (rule signed_take_bit_int_eq_self)
    have "- (2 ^ 31) \<le> (0::int)" by simp
    also have "0 \<le> uint w" by simp
    finally show "- (2 ^ 31) \<le> uint w" .
    show "uint w < 2 ^ 31" using uint_byte_bound [of w] by simp
  qed
  moreover have "n mod 32 = n" using assms by simp
  ultimately show ?thesis by (simp add: js_shr_eq)
qed

lemma js_and_1: "js_and x 1 = x mod 2"
proof -
  have "(word_of_int x :: 32 word) AND 1 = word_of_int (x AND 1)"
    by (simp add: of_int_and_eq)
  also have "x AND 1 = x mod 2" by (simp add: and_one_eq)
  finally have "js_and x 1 = signed_take_bit 31 (x mod 2)"
    by (simp add: js_and_def sint_sbintrunc')
  also have "\<dots> = x mod 2"
    by (intro signed_take_bit_int_eq_self) (simp_all add: pos_mod_bound [of 2 x, THEN less_trans])
  finally show ?thesis .
qed

text \<open>The test \<open>((byte >> n) & 1) === 1\<close> reads bit \<open>n\<close> of the byte.\<close>

lemma bit_extract:
  assumes "0 \<le> n" "n < 8"
  shows "(js_and (js_shr (uint (w::byte)) n) 1 = 1) = bit w (nat n)"
proof -
  have "(js_and (js_shr (uint w) n) 1 = 1) = odd (drop_bit (nat n) (uint w))"
    by (simp add: js_and_1 js_shr_byte [OF assms] odd_iff_mod_2_eq_one)
  also have "\<dots> = bit (uint w) (nat n)" by (simp add: bit_iff_odd_drop_bit)
  also have "\<dots> = bit w (nat n)" using assms by (auto simp: bit_uint_iff)
  finally show ?thesis .
qed

section \<open>Facts about the register wait and \<open>state\<close>\<close>

lemma state_eq:
  "state c arrival =
     (Returns (case reg_value (reading_reg c) of Some v \<Rightarrow> Some v | None \<Rightarrow> arrival),
      c\<lparr>streaming := True,
        reading_reg :=
          (case reg_value (reading_reg c) of
             Some v \<Rightarrow> reading_reg c
           | None \<Rightarrow> (reading_reg c)\<lparr>reg_waits := reg_waits (reading_reg c) + 1,
                                      reg_value := arrival\<rparr>)\<rparr>)"
  by (simp add: state_def setStreaming_def pauseUntilValues_def array_get0_def Let_def
      split: option.splits)

lemma digitalRead_eq:
  "fst (state c arrival) = Returns buf \<Longrightarrow>
   fst (digitalRead c arrival pin) =
     Returns (case buf of
        None \<Rightarrow> False
      | Some b \<Rightarrow>
          if pin < 0 \<or> js_shr pin 3 \<ge> int (length b) \<or> js_shr pin 3 < 0 then False
          else bit (b ! nat (js_shr pin 3)) (nat (js_rem pin 8)))"
proof (cases buf)
  case None
  assume "fst (state c arrival) = Returns buf"
  with None show ?thesis
    by (cases "state c arrival") (simp add: digitalRead_def)
next
  case (Some b)
  assume st: "fst (state c arrival) = Returns buf"
  show ?thesis
  proof (cases "pin < 0 \<or> js_shr pin 3 \<ge> int (length b)")
    case True
    with st Some show ?thesis
      by (cases "state c arrival") (auto simp: digitalRead_def Let_def)
  next
    case False
    then have pin: "0 \<le> pin" and hi: "js_shr pin 3 < int (length b)" by auto
    have r: "0 \<le> js_rem pin 8" "js_rem pin 8 < 8"
      using pin by (simp_all add: js_rem_nonneg)
    show ?thesis
    proof (cases "js_shr pin 3 < 0")
      case True
      with st Some pin hi show ?thesis
        by (cases "state c arrival")
           (simp add: digitalRead_def Let_def getByte_def js_and_def js_shr_def)
    next
      case neg: False
      with st Some pin hi show ?thesis
        by (cases "state c arrival")
           (simp add: digitalRead_def Let_def getByte_def bit_extract [OF r])
    qed
  qed
qed

section \<open>Facts about the connectivity gate and the commands\<close>

lemma gate_returns:
  "numPins_known c arrival = Some n \<Longrightarrow>
   pauseUntilValues (numPins_reg c) None arrival =
     (Returns [n],
      (case reg_value (numPins_reg c) of
         Some v \<Rightarrow> numPins_reg c
       | None \<Rightarrow> (numPins_reg c)\<lparr>reg_waits := reg_waits (numPins_reg c) + 1,
                                  reg_value := Some n\<rparr>))"
  by (auto simp: numPins_known_def pauseUntilValues_def Let_def split: option.splits)

lemma gate_blocked:
  "numPins_known c arrival = None \<Longrightarrow>
   pauseUntilValues (numPins_reg c) None arrival =
     (Blocked, (numPins_reg c)\<lparr>reg_waits := reg_waits (numPins_reg c) + 1\<rparr>)"
  by (auto simp: numPins_known_def pauseUntilValues_def Let_def split: option.splits)

lemma configure_returns:
  "numPins_known c arrival = Some n \<Longrightarrow>
   fst (configure c arrival pin mode) = Returns () \<and>
   sent (snd (configure c arrival pin mode)) =
     sent c @ [JDPacket_from Configure [word_of_int pin, word_of_int mode]] \<and>
   started (snd (configure c arrival pin mode)) \<and>
   reg_value (numPins_reg (snd (configure c arrival pin mode))) = Some n"
  by (simp add: configure_def gate_returns Let_def sendCommand_def createBuffer_def setByte_def
      start_def numPins_known_def numeral_2_eq_2 split: option.splits)

lemma configure_blocked:
  "numPins_known c arrival = None \<Longrightarrow>
   fst (configure c arrival pin mode) = Blocked \<and>
   sent (snd (configure c arrival pin mode)) = sent c"
  by (simp add: configure_def gate_blocked Let_def start_def)

lemma requestPinInfo_returns:
  "numPins_known c arrival = Some n \<Longrightarrow>
   fst (requestPinInfo c arrival pin) = Returns () \<and>
   sent (snd (requestPinInfo c arrival pin)) =
     sent c @ [JDPacket_from PinInfo [word_of_int pin]] \<and>
   started (snd (requestPinInfo c arrival pin)) \<and>
   reg_value (numPins_reg (snd (requestPinInfo c arrival pin))) = Some n"
  by (simp add: requestPinInfo_def gate_returns Let_def sendCommand_def createBuffer_def
      setByte_def start_def numPins_known_def split: option.splits)

lemma requestPinInfo_blocked:
  "numPins_known c arrival = None \<Longrightarrow>
   fst (requestPinInfo c arrival pin) = Blocked \<and>
   sent (snd (requestPinInfo c arrival pin)) = sent c"
  by (simp add: requestPinInfo_def gate_blocked Let_def start_def)

lemma requestPinByHwPin_returns:
  "numPins_known c arrival = Some n \<Longrightarrow>
   fst (requestPinByHwPin c arrival hwPin) = Returns () \<and>
   sent (snd (requestPinByHwPin c arrival hwPin)) =
     sent c @ [JDPacket_from PinByHwPin [word_of_int hwPin]] \<and>
   started (snd (requestPinByHwPin c arrival hwPin)) \<and>
   reg_value (numPins_reg (snd (requestPinByHwPin c arrival hwPin))) = Some n"
  by (simp add: requestPinByHwPin_def gate_returns Let_def sendCommand_def createBuffer_def
      setByte_def start_def numPins_known_def split: option.splits)

lemma requestPinByHwPin_blocked:
  "numPins_known c arrival = None \<Longrightarrow>
   fst (requestPinByHwPin c arrival hwPin) = Blocked \<and>
   sent (snd (requestPinByHwPin c arrival hwPin)) = sent c"
  by (simp add: requestPinByHwPin_def gate_blocked Let_def start_def)

lemma requestPinByLabel_returns:
  "numPins_known c arrival = Some n \<Longrightarrow>
   fst (requestPinByLabel c arrival label) = Returns () \<and>
   sent (snd (requestPinByLabel c arrival label)) =
     sent c @ [JDPacket_jdpacked PinByLabel [label]]"
  by (simp add: requestPinByLabel_def gate_returns Let_def sendCommand_def start_def)

lemma jdunpack_jdpack: "jdunpack (jdpack [label]) = [label]"
  by (simp add: jdunpack_def jdpack_def unat_of_nat map_idI)

lemma uint_byte_of_int: "uint (word_of_int x :: byte) = x mod 256"
  by (simp add: uint_word_of_int)

lemma numPins_known_new:
  "numPins_known (new_GPIOClient t) arrival = arrival"
  by (simp add: numPins_known_def new_GPIOClient_def)

lemma digitalRead_snd: "snd (digitalRead c arrival pin) = snd (state c arrival)"
  by (cases "state c arrival")
     (simp add: digitalRead_def Let_def split: outcome.splits option.splits)

section \<open>Facts about repeated \<open>numPins\<close> calls\<close>

lemma numPins_cached:
  "reg_value (numPins_reg c) = Some n \<Longrightarrow>
   numPins c arrival = (Returns (Some n), c\<lparr>started := True\<rparr>)"
  by (simp add: numPins_def pauseUntilValues_def start_def array_get0_def Let_def)

lemma numPins_first:
  "reg_value (numPins_reg c) = None \<Longrightarrow>
   numPins c arrival =
     (case arrival of
        Some n \<Rightarrow> (Returns (Some n),
                   c\<lparr>started := True,
                     numPins_reg := (numPins_reg c)\<lparr>reg_waits := reg_waits (numPins_reg c) + 1,
                                                   reg_value := Some n\<rparr>\<rparr>)
      | None \<Rightarrow> (Blocked,
                 c\<lparr>started := True,
                   numPins_reg := (numPins_reg c)\<lparr>reg_waits := reg_waits (numPins_reg c) + 1\<rparr>\<rparr>))"
  by (simp add: numPins_def pauseUntilValues_def start_def array_get0_def Let_def
      split: option.splits)

lemma numPins_calls_cached:
  "reg_value (numPins_reg c) = Some n \<Longrightarrow>
   numPins_reg (numPins_calls c arrivals) = numPins_reg c"
  by (induction arrivals arbitrary: c) (simp_all add: numPins_cached)

lemma numPins_calls_waits:
  "reg_value (numPins_reg c) = None \<Longrightarrow>
   reg_waits (numPins_reg (numPins_calls c arrivals)) \<le> reg_waits (numPins_reg c) + 1"
proof (cases arrivals)
  case Nil
  then show ?thesis by simp
next
  case (Cons a as)
  assume none: "reg_value (numPins_reg c) = None"
  show ?thesis
  proof (cases a)
    case None
    with Cons none show ?thesis by (simp add: numPins_first)
  next
    case (Some n)
    with Cons none show ?thesis
      by (simp add: numPins_first numPins_calls_cached [where n = n])
  qed
qed

section \<open>Decoding the state bitmask\<close>



text \<open>
  Claim C2. Bitmask decode round-trip, least significant bit first in each byte: for
  every state buffer that the register can hold (a report of one bit per pin, here any
  buffer of at most \<open>2^28\<close> bytes), every byte index \<open>k\<close> into it and every bit position
  \<open>b\<close> in \<open>[0, 8)\<close>, \<open>digitalRead(8 * k + b)\<close> returns \<open>true\<close> if bit \<open>b\<close> of byte \<open>k\<close> is
  set and \<open>false\<close> if it is clear.
\<close>

theorem digitalRead_bitmask_roundtrip:
  assumes "fst (state c arrival) = Returns (Some buf)"
    and "length buf \<le> 2 ^ 28" and "k < length buf" and "b < 8"
  shows "fst (digitalRead c arrival (8 * int k + int b)) = Returns (bit (buf ! k) b)"
proof -
  let ?pin = "8 * int k + int b"
  have pin: "0 \<le> ?pin" by simp
  have "k < 2 ^ 28" using assms(2,3) by simp
  then have "int k < 268435456" by simp
  then have lt: "?pin < 2 ^ 31" using assms(4) by simp
  have q: "js_shr ?pin 3 = int k"
    using assms(4) by (simp add: js_shr3_small [OF pin lt])
  have r: "js_rem ?pin 8 = int b"
    using assms(4) by (simp add: js_rem_nonneg [OF pin])
  show ?thesis
    using digitalRead_eq [OF assms(1), of ?pin] assms(3) by (simp add: q r)
qed

text \<open>
  The scenario of the buffer \<open>[0b00000101]\<close>: pins 0 and 2 read \<open>true\<close>, pins 1 and 3
  read \<open>false\<close>.
\<close>

theorem digitalRead_bitmask_roundtrip_witness:
  "fst (state (new_GPIOClient 100) (Some [5])) = Returns (Some [5]) \<and>
   length [5 :: byte] \<le> 2 ^ 28 \<and>
   fst (digitalRead (new_GPIOClient 100) (Some [5]) 0) = Returns True \<and>
   fst (digitalRead (new_GPIOClient 100) (Some [5]) 1) = Returns False \<and>
   fst (digitalRead (new_GPIOClient 100) (Some [5]) 2) = Returns True \<and>
   fst (digitalRead (new_GPIOClient 100) (Some [5]) 3) = Returns False"
proof -
  have s: "fst (state (new_GPIOClient 100) (Some [5])) = Returns (Some [5])"
    by (simp add: state_eq new_GPIOClient_def)
  have l: "length [5 :: byte] \<le> 2 ^ 28" by simp
  show ?thesis
    using s l digitalRead_bitmask_roundtrip [OF s l, of 0 0]
      digitalRead_bitmask_roundtrip [OF s l, of 0 1]
      digitalRead_bitmask_roundtrip [OF s l, of 0 2]
      digitalRead_bitmask_roundtrip [OF s l, of 0 3]
    by simp
qed

section \<open>Commands\<close>

text \<open>
  Claim C3. For every pin, \<open>digitalWrite(pin, true)\<close> is \<open>configure(pin, OutputHigh)\<close> and
  \<open>digitalWrite(pin, false)\<close> is \<open>configure(pin, OutputLow)\<close>, with the same result and
  the same client state; once the \<open>NumPins\<close> register has a value the call returns
  and the last frame sent is the Configure frame \<open>[pin, OutputHigh]\<close>, respectively
  \<open>[pin, OutputLow]\<close>.
\<close>

theorem digitalWrite_is_configure:
  "digitalWrite M c arrival pin True = configure c arrival pin (OutputHigh M) \<and>
   digitalWrite M c arrival pin False = configure c arrival pin (OutputLow M) \<and>
   (\<forall>n. numPins_known c arrival = Some n \<longrightarrow>
      fst (digitalWrite M c arrival pin True) = Returns () \<and>
      last (sent (snd (digitalWrite M c arrival pin True))) =
        JDPacket_from Configure [word_of_int pin, word_of_int (OutputHigh M)] \<and>
      fst (digitalWrite M c arrival pin False) = Returns () \<and>
      last (sent (snd (digitalWrite M c arrival pin False))) =
        JDPacket_from Configure [word_of_int pin, word_of_int (OutputLow M)])"
  by (simp add: digitalWrite_def configure_returns)

theorem digitalWrite_is_configure_witness:
  "numPins_known (new_GPIOClient 100) (Some 4) = Some 4 \<and>
   last (sent (snd (digitalWrite \<lparr>OutputHigh = 18, OutputLow = 34\<rparr>
                      (new_GPIOClient 100) (Some 4) 3 True)))
     = \<lparr>service_command = Configure, pkt_data = [3, 18]\<rparr> \<and>
   last (sent (snd (digitalWrite \<lparr>OutputHigh = 18, OutputLow = 34\<rparr>
                      (new_GPIOClient 100) (Some 4) 3 False)))
     = \<lparr>service_command = Configure, pkt_data = [3, 34]\<rparr>"
proof -
  have k: "numPins_known (new_GPIOClient 100) (Some 4) = Some 4"
    by (simp add: numPins_known_new)
  show ?thesis
    using k digitalWrite_is_configure
      [of "\<lparr>OutputHigh = 18, OutputLow = 34\<rparr>" "new_GPIOClient 100" "Some 4" 3]
    by (auto simp: JDPacket_from_def)
qed

text \<open>
  Claim C4. For every pin and mode, \<open>configure(pin, mode)\<close> waits for \<open>NumPins\<close> only as
  a gate: while the register has no value the call stays in the wait and sends
  nothing; once it has a value \<open>n\<close>, whatever \<open>n\<close> is and also when \<open>pin \<ge> n\<close>, the call
  returns having appended exactly one frame, the 2-byte payload \<open>[pin, mode]\<close> on the
  Configure opcode.
\<close>

theorem configure_sends_unchecked_frame:
  "(numPins_known c arrival = None \<longrightarrow>
      fst (configure c arrival pin mode) = Blocked \<and>
      sent (snd (configure c arrival pin mode)) = sent c) \<and>
   (\<forall>n. numPins_known c arrival = Some n \<longrightarrow>
      fst (configure c arrival pin mode) = Returns () \<and>
      sent (snd (configure c arrival pin mode)) =
        sent c @ [JDPacket_from Configure [word_of_int pin, word_of_int mode]] \<and>
      length (pkt_data (last (sent (snd (configure c arrival pin mode))))) = 2)"
  using configure_returns [of c arrival _ pin mode] configure_blocked [of c arrival pin mode]
  by (simp add: JDPacket_from_def)

theorem configure_sends_unchecked_frame_witness:
  "numPins_known (new_GPIOClient 100) (Some 4) = Some 4 \<and> (4::int) \<le> 9 \<and>
   fst (configure (new_GPIOClient 100) (Some 4) 9 4) = Returns () \<and>
   sent (snd (configure (new_GPIOClient 100) (Some 4) 9 4)) =
     [\<lparr>service_command = Configure, pkt_data = [9, 4]\<rparr>] \<and>
   numPins_known (new_GPIOClient 100) None = None \<and>
   fst (configure (new_GPIOClient 100) None 9 4) = Blocked \<and>
   sent (snd (configure (new_GPIOClient 100) None 9 4)) = []"
proof -
  have k: "numPins_known (new_GPIOClient 100) (Some 4) = Some 4"
    and n: "numPins_known (new_GPIOClient 100) None = None"
    by (simp_all add: numPins_known_new)
  have s: "sent (new_GPIOClient 100) = []"
    by (simp add: new_GPIOClient_def)
  show ?thesis
    using k n s configure_sends_unchecked_frame [of "new_GPIOClient 100" "Some 4" 9 4]
      configure_sends_unchecked_frame [of "new_GPIOClient 100" None 9 4]
    by (auto simp: JDPacket_from_def)
qed

text \<open>
  Claim C7. For every pin, \<open>requestPinInfo(pin)\<close> sends the 1-byte frame \<open>[pin]\<close> on the
  PinInfo opcode, and for every \<open>hwPin\<close>, \<open>requestPinByHwPin(hwPin)\<close> sends the 1-byte
  frame \<open>[hwPin]\<close> on the PinByHwPin opcode. The gate comes first: while the \<open>NumPins\<close>
  register has no value the call stays in the wait and nothing is sent; when the
  frame has been sent the connection is started and the register has a value.
\<close>

theorem requestPin_frames_after_gate:
  "(numPins_known c arrival = None \<longrightarrow>
      fst (requestPinInfo c arrival pin) = Blocked \<and>
      sent (snd (requestPinInfo c arrival pin)) = sent c \<and>
      fst (requestPinByHwPin c arrival hwPin) = Blocked \<and>
      sent (snd (requestPinByHwPin c arrival hwPin)) = sent c) \<and>
   (\<forall>n. numPins_known c arrival = Some n \<longrightarrow>
      fst (requestPinInfo c arrival pin) = Returns () \<and>
      sent (snd (requestPinInfo c arrival pin)) =
        sent c @ [JDPacket_from PinInfo [word_of_int pin]] \<and>
      started (snd (requestPinInfo c arrival pin)) \<and>
      reg_value (numPins_reg (snd (requestPinInfo c arrival pin))) = Some n \<and>
      fst (requestPinByHwPin c arrival hwPin) = Returns () \<and>
      sent (snd (requestPinByHwPin c arrival hwPin)) =
        sent c @ [JDPacket_from PinByHwPin [word_of_int hwPin]] \<and>
      started (snd (requestPinByHwPin c arrival hwPin)) \<and>
      reg_value (numPins_reg (snd (requestPinByHwPin c arrival hwPin))) = Some n)"
  using requestPinInfo_returns [of c arrival _ pin] requestPinInfo_blocked [of c arrival pin]
    requestPinByHwPin_returns [of c arrival _ hwPin]
    requestPinByHwPin_blocked [of c arrival hwPin]
  by simp

theorem requestPin_frames_after_gate_witness:
  "numPins_known (new_GPIOClient 100) (Some 4) = Some 4 \<and>
   sent (snd (requestPinInfo (new_GPIOClient 100) (Some 4) 2)) =
     [\<lparr>service_command = PinInfo, pkt_data = [2]\<rparr>] \<and>
   sent (snd (requestPinByHwPin (new_GPIOClient 100) (Some 4) 13)) =
     [\<lparr>service_command = PinByHwPin, pkt_data = [13]\<rparr>] \<and>
   started (snd (requestPinInfo (new_GPIOClient 100) (Some 4) 2)) \<and>
   numPins_known (new_GPIOClient 100) None = None \<and>
   fst (requestPinInfo (new_GPIOClient 100) None 2) = Blocked \<and>
   sent (snd (requestPinInfo (new_GPIOClient 100) None 2)) = [] \<and>
   sent (snd (requestPinByHwPin (new_GPIOClient 100) None 13)) = []"
proof -
  have k: "numPins_known (new_GPIOClient 100) (Some 4) = Some 4"
    and n: "numPins_known (new_GPIOClient 100) None = None"
    by (simp_all add: numPins_known_new)
  have s: "sent (new_GPIOClient 100) = []"
    by (simp add: new_GPIOClient_def)
  show ?thesis
    using k n s requestPin_frames_after_gate [of "new_GPIOClient 100" "Some 4" 2 13]
      requestPin_frames_after_gate [of "new_GPIOClient 100" None 2 13]
    by (auto simp: JDPacket_from_def)
qed

text \<open>
  Claim C9. The bytes of a command frame are the arguments reduced to unsigned 8-bit
  values: for all integers \<open>pin\<close>, \<open>mode\<close> and \<open>hwPin\<close>, \<open>configure(pin, mode)\<close> sends
  \<open>[pin mod 256, mode mod 256]\<close>, \<open>requestPinInfo(pin)\<close> sends \<open>[pin mod 256]\<close> and
  \<open>requestPinByHwPin(hwPin)\<close> sends \<open>[hwPin mod 256]\<close>; an argument outside \<open>[0, 255]\<close>
  is wrapped and the call still returns.
\<close>

theorem frame_bytes_truncated:
  "numPins_known c arrival = Some n \<Longrightarrow>
   fst (configure c arrival pin mode) = Returns () \<and>
   map uint (pkt_data (last (sent (snd (configure c arrival pin mode))))) =
     [pin mod 256, mode mod 256] \<and>
   fst (requestPinInfo c arrival pin) = Returns () \<and>
   map uint (pkt_data (last (sent (snd (requestPinInfo c arrival pin))))) = [pin mod 256] \<and>
   fst (requestPinByHwPin c arrival hwPin) = Returns () \<and>
   map uint (pkt_data (last (sent (snd (requestPinByHwPin c arrival hwPin))))) =
     [hwPin mod 256]"
  by (simp add: configure_returns requestPinInfo_returns requestPinByHwPin_returns
      JDPacket_from_def uint_byte_of_int)

theorem frame_bytes_truncated_witness:
  "numPins_known (new_GPIOClient 100) (Some 4) = Some 4 \<and>
   map uint (pkt_data (last (sent (snd (configure (new_GPIOClient 100) (Some 4) 300 (- 1))))))
     = [44, 255] \<and>
   map uint (pkt_data (last (sent (snd (requestPinInfo (new_GPIOClient 100) (Some 4) 256)))))
     = [0] \<and>
   map uint (pkt_data (last (sent (snd (requestPinByHwPin (new_GPIOClient 100) (Some 4) (- 2))))))
     = [254]"
proof -
  have k: "numPins_known (new_GPIOClient 100) (Some 4) = Some 4"
    by (simp add: numPins_known_new)
  show ?thesis
    using k frame_bytes_truncated [OF k, of 300 "- 1" "- 2"]
      frame_bytes_truncated [OF k, of 256 0 0]
    by simp
qed

text \<open>
  Claim C8. For every label, \<open>requestPinByLabel(label)\<close> sends a frame on the PinByLabel
  opcode whose payload unpacks to the label; for \<open>"A0"\<close> the payload is the two bytes
  \<open>0x41, 0x30\<close> and unpacks to \<open>"A0"\<close>.
\<close>

theorem requestPinByLabel_roundtrip:
  "numPins_known c arrival = Some n \<Longrightarrow>
   fst (requestPinByLabel c arrival label) = Returns () \<and>
   service_command (last (sent (snd (requestPinByLabel c arrival label)))) = PinByLabel \<and>
   jdunpack (pkt_data (last (sent (snd (requestPinByLabel c arrival label))))) = [label]"
  by (simp add: requestPinByLabel_returns JDPacket_jdpacked_def JDPacket_from_def
      jdunpack_jdpack)

theorem requestPinByLabel_roundtrip_witness:
  "numPins_known (new_GPIOClient 100) (Some 4) = Some 4 \<and>
   pkt_data (last (sent (snd (requestPinByLabel (new_GPIOClient 100) (Some 4) ''A0'')))) =
     [65, 48] \<and>
   jdunpack (pkt_data (last (sent (snd (requestPinByLabel (new_GPIOClient 100) (Some 4) ''A0'')))))
     = [''A0'']"
proof -
  have k: "numPins_known (new_GPIOClient 100) (Some 4) = Some 4"
    by (simp add: numPins_known_new)
  have p: "pkt_data (last (sent (snd (requestPinByLabel (new_GPIOClient 100) (Some 4) ''A0''))))
     = [65, 48]"
    by (simp add: requestPinByLabel_returns [OF k] JDPacket_jdpacked_def JDPacket_from_def
        jdpack_def)
  show ?thesis
    using k p requestPinByLabel_roundtrip [OF k, of "''A0''"] by simp
qed

section \<open>The read path\<close>

text \<open>
  Claim C10. The read path sends no command: \<open>state()\<close> and \<open>digitalRead(pin)\<close> leave the
  list of sent frames as it was and switch streaming on; of the client state only the
  streaming flag and the state register's own cache can differ afterwards, and the
  \<open>NumPins\<close> register is unchanged.
\<close>

theorem read_path_sends_nothing:
  "sent (snd (state c arrival)) = sent c \<and>
   sent (snd (digitalRead c arrival pin)) = sent c \<and>
   streaming (snd (state c arrival)) \<and>
   streaming (snd (digitalRead c arrival pin)) \<and>
   snd (state c arrival) =
     c\<lparr>streaming := True, reading_reg := reading_reg (snd (state c arrival))\<rparr> \<and>
   snd (digitalRead c arrival pin) =
     c\<lparr>streaming := True, reading_reg := reading_reg (snd (digitalRead c arrival pin))\<rparr> \<and>
   numPins_reg (snd (digitalRead c arrival pin)) = numPins_reg c"
  by (simp add: digitalRead_snd state_eq)

theorem read_path_sends_nothing_witness:
  "sent (snd (digitalRead (new_GPIOClient 100) (Some [5]) 2)) = [] \<and>
   sent (snd (state (new_GPIOClient 100) None)) = [] \<and>
   streaming (snd (digitalRead (new_GPIOClient 100) (Some [5]) 2)) \<and>
   reg_value (numPins_reg (snd (digitalRead (new_GPIOClient 100) (Some [5]) 2))) = None"
proof -
  have s: "sent (new_GPIOClient 100) = []"
    and n: "reg_value (numPins_reg (new_GPIOClient 100)) = None"
    by (simp_all add: new_GPIOClient_def)
  show ?thesis
    using s n read_path_sends_nothing [of "new_GPIOClient 100" "Some [5]" 2]
      read_path_sends_nothing [of "new_GPIOClient 100" None 2]
    by simp
qed

section \<open>Caching of \<open>NumPins\<close>\<close>

text \<open>
  Claim C6. Across every sequence of repeated \<open>numPins()\<close> calls on one new client, at
  most one blocking wait is issued for the \<open>NumPins\<close> register; once a call has
  returned, every later call returns the same cached value at once and leaves the
  client, and so the count of waits, unchanged.
\<close>

theorem numPins_waits_at_most_once:
  "reg_waits (numPins_reg (numPins_calls (new_GPIOClient t) arrivals)) \<le> 1 \<and>
   (\<forall>c a v c' a'. numPins c a = (Returns v, c') \<longrightarrow>
      numPins c' a' = (Returns v, c') \<and>
      (\<exists>n. v = Some n \<and> reg_value (numPins_reg c') = Some n))"
proof -
  have "reg_waits (numPins_reg (numPins_calls (new_GPIOClient t) arrivals))
          \<le> reg_waits (numPins_reg (new_GPIOClient t)) + 1"
    by (rule numPins_calls_waits) (simp add: new_GPIOClient_def)
  then have one: "reg_waits (numPins_reg (numPins_calls (new_GPIOClient t) arrivals)) \<le> 1"
    by (simp add: new_GPIOClient_def)
  have again: "numPins c' a' = (Returns v, c') \<and>
      (\<exists>n. v = Some n \<and> reg_value (numPins_reg c') = Some n)"
    if call: "numPins c a = (Returns v, c')" for c a v c' a'
  proof -
    have "\<exists>n. v = Some n \<and> reg_value (numPins_reg c') = Some n"
    proof (cases "reg_value (numPins_reg c)")
      case None
      with call show ?thesis
        by (cases a) (auto simp: numPins_first)
    next
      case (Some m)
      have "numPins c a = (Returns (Some m), c\<lparr>started := True\<rparr>)"
        by (rule numPins_cached [OF Some])
      with call have "v = Some m" "c' = c\<lparr>started := True\<rparr>" by simp_all
      with Some show ?thesis by simp
    qed
    then obtain n where v: "v = Some n" and r: "reg_value (numPins_reg c') = Some n"
      by blast
    have "started c'"
      using call by (auto simp: numPins_def start_def Let_def split: prod.splits outcome.splits)
    then have "c'\<lparr>started := True\<rparr> = c'" by simp
    then show ?thesis using v r numPins_cached [OF r, of a'] by simp
  qed
  show ?thesis using one again by blast
qed

theorem numPins_waits_at_most_once_witness:
  "numPins (new_GPIOClient 100) (Some 4) =
     (Returns (Some 4), snd (numPins (new_GPIOClient 100) (Some 4))) \<and>
   numPins (snd (numPins (new_GPIOClient 100) (Some 4))) (Some 7) =
     (Returns (Some 4), snd (numPins (new_GPIOClient 100) (Some 4))) \<and>
   reg_waits (numPins_reg (numPins_calls (new_GPIOClient 100) [Some 4, Some 7, None])) \<le> 1"
proof -
  have f: "numPins (new_GPIOClient 100) (Some 4) =
     (Returns (Some 4), snd (numPins (new_GPIOClient 100) (Some 4)))"
    by (simp add: numPins_first new_GPIOClient_def)
  show ?thesis
    using f numPins_waits_at_most_once [of 100 "[Some 4, Some 7, None]"] by blast
qed

end
